theory Spec2Isabelle
  imports Complex_Main "HOL-Library.Char_ord" "HOL-Library.List_Lexorder"
    "HOL-Library.Product_Lexorder"
begin

section \<open>Data model\<close>

text \<open>
  One line of \<^verbatim>\<open>synthetic_coffee_health_10000.csv\<close>, with the columns that
  \<^verbatim>\<open>coffee.py\<close> reads. Text columns are strings, as the script compares them
  (\<^verbatim>\<open>isin(['Male','Female'])\<close>, \<^verbatim>\<open>row['Gender']=="Male"\<close>, the keys of
  \<^verbatim>\<open>stress_mapping\<close>). \<^verbatim>\<open>Age\<close> is an integer column. The float64
  columns are modelled by the exact rational value of each cell: sums, quotients and
  roundings below are those of exact arithmetic, comparisons are those of the cells. A
  missing value (pandas' NaN) is \<open>None\<close> where the script itself can produce one.
\<close>

record row =
  Country :: string
  Gender :: string
  Age :: int
  Occupation :: string
  Coffee_Intake :: rat
  Sleep_Hours :: rat
  Stress_Level :: string
  Heart_Rate :: rat
  BMI :: rat
  Smoking :: string
  Alcohol_Consumption :: string
  Physical_Activity_Hours :: rat

text \<open>A data frame is the list of its rows, in index order; a column is a list of cells.\<close>

type_synonym frame = "row list"

subsection \<open>Boolean masks\<close>

text \<open>\<^verbatim>\<open>col.isin(values)\<close>: one boolean per cell.\<close>

definition isin :: "'a list \<Rightarrow> 'a list \<Rightarrow> bool list" where
  "isin col vals = map (\<lambda>v. v \<in> set vals) col"

text \<open>\<^verbatim>\<open>a & b\<close> on two boolean columns of one frame: cell by cell.\<close>

definition mask_and :: "bool list \<Rightarrow> bool list \<Rightarrow> bool list" where
  "mask_and a b = map (\<lambda>(x, y). x \<and> y) (zip a b)"

text \<open>\<^verbatim>\<open>df[mask]\<close>: the rows whose mask cell is true, in their order.\<close>

definition select_rows :: "'a list \<Rightarrow> bool list \<Rightarrow> 'a list" where
  "select_rows df m = map fst (filter snd (zip df m))"

section \<open>Loading and filtering\<close>

text \<open>
  \<^verbatim>\<open>load_data\<close>: the parsed file is the argument (\<^verbatim>\<open>pd.read_csv\<close> is outside
  the program); the function keeps the rows whose gender is one of the two strings.
\<close>

definition load_data :: "frame \<Rightarrow> frame" where
  "load_data df = select_rows df (isin (map Gender df) [''Male'', ''Female''])"

text \<open>
  Lines 36 to 39. The three sidebar widgets return plain values: the selected countries,
  the selected genders and the pair of the age slider; they are the arguments here.
\<close>

definition filtered_data :: "frame \<Rightarrow> string list \<Rightarrow> string list \<Rightarrow> int \<times> int \<Rightarrow> frame" where
  "filtered_data data countries genders age_range =
     select_rows data
       (mask_and
         (mask_and
           (mask_and (isin (map Country data) countries) (isin (map Gender data) genders))
           (map (\<lambda>a. fst age_range \<le> a) (map Age data)))
         (map (\<lambda>a. a \<le> snd age_range) (map Age data)))"

section \<open>Numeric helpers of the libraries\<close>

text \<open>
  \<^verbatim>\<open>Series.mean()\<close> and \<^verbatim>\<open>Series.min()\<close> skip missing cells and return
  NaN (\<open>None\<close>) when nothing is left.
\<close>

fun dropna :: "'a option list \<Rightarrow> 'a list" where
  "dropna [] = []"
| "dropna (None # xs) = dropna xs"
| "dropna (Some v # xs) = v # dropna xs"

definition mean :: "rat list \<Rightarrow> rat option" where
  "mean xs = (if xs = [] then None else Some (sum_list xs / of_nat (length xs)))"

definition series_min :: "rat option list \<Rightarrow> rat option" where
  "series_min xs = (case dropna xs of [] \<Rightarrow> None | v # vs \<Rightarrow> Some (fold min vs v))"

definition series_max :: "rat option list \<Rightarrow> rat option" where
  "series_max xs = (case dropna xs of [] \<Rightarrow> None | v # vs \<Rightarrow> Some (fold max vs v))"

text \<open>
  Rounding to the nearest integer, a tie going to the even neighbour, and
  \<^verbatim>\<open>round(x, 2)\<close> built on it: scale by 100, round, scale back. NaN stays NaN.
\<close>

definition rint :: "rat \<Rightarrow> int" where
  "rint x = (let f = \<lfloor>x\<rfloor>; d = x - of_int f in
     if d < 1 / 2 then f else if 1 / 2 < d then f + 1 else if even f then f else f + 1)"

definition round2 :: "rat \<Rightarrow> rat" where
  "round2 x = of_int (rint (x * 100)) / 100"

definition py_round2 :: "rat option \<Rightarrow> rat option" where
  "py_round2 x = map_option round2 x"

text \<open>
  \<^verbatim>\<open>x or d\<close> on a float: \<open>d\<close> replaces \<open>x\<close> when \<open>x\<close> is falsy, and the
  only falsy float is zero; NaN is truthy and is kept.
\<close>

definition py_or :: "rat option \<Rightarrow> rat \<Rightarrow> rat option" where
  "py_or x d = (case x of None \<Rightarrow> None | Some v \<Rightarrow> if v = 0 then Some d else Some v)"

text \<open>\<^verbatim>\<open>d.get(k, dflt)\<close>.\<close>

definition dict_get :: "('k \<rightharpoonup> 'v) \<Rightarrow> 'k \<Rightarrow> 'v \<Rightarrow> 'v" where
  "dict_get d k dflt = (case d k of None \<Rightarrow> dflt | Some v \<Rightarrow> v)"

text \<open>
  \<^verbatim>\<open>df.groupby(key)\<close> with pandas' defaults: one group per distinct key, the groups
  in ascending key order, each group holding its rows in frame order.
\<close>

definition groupby :: "('r \<Rightarrow> 'k::linorder) \<Rightarrow> 'r list \<Rightarrow> ('k \<times> 'r list) list" where
  "groupby key df = map (\<lambda>k. (k, filter (\<lambda>r. key r = k) df)) (sort (remdups (map key df)))"

text \<open>
  \<^verbatim>\<open>pd.cut(x, bins, labels)\<close> with its defaults (\<^verbatim>\<open>right=True\<close>,
  \<^verbatim>\<open>include_lowest=False\<close>) on ascending bin edges: the position of \<open>x\<close> among
  the edges is searched from the left; position 0 and position \<open>len(bins)\<close> give NaN,
  position \<open>i\<close> gives the label number \<open>i - 1\<close>.
\<close>

definition searchsorted_left :: "rat list \<Rightarrow> rat \<Rightarrow> nat" where
  "searchsorted_left bins x = length (takeWhile (\<lambda>b. b < x) bins)"

definition cut :: "rat list \<Rightarrow> string list \<Rightarrow> rat \<Rightarrow> string option" where
  "cut bins labels x =
     (let i = searchsorted_left bins x
      in if i = 0 \<or> i = length bins then None else Some (labels ! (i - 1)))"

section \<open>The empty guard and the stress index\<close>

datatype error = EmptyResult

definition stress_mapping :: "string \<rightharpoonup> rat" where
  "stress_mapping = map_of [(''Low'', 1), (''Medium'', 2), (''High'', 3)]"

text \<open>
  The column \<^verbatim>\<open>Stress_Index\<close> that line 47 adds to the view:
  \<^verbatim>\<open>Series.map(dict)\<close> gives NaN for a level that is not a key.
\<close>

definition Stress_Index :: "row \<Rightarrow> rat option" where
  "Stress_Index r = stress_mapping (Stress_Level r)"

section \<open>KPI overview\<close>

record kpis =
  kpi_coffee :: "rat option"
  kpi_sleep :: "rat option"
  kpi_stress :: "rat option"
  kpi_bmi :: "rat option"

definition kpi :: "frame \<Rightarrow> kpis" where
  "kpi fd =
     \<lparr> kpi_coffee = py_round2 (mean (map Coffee_Intake fd)),
       kpi_sleep = py_round2 (mean (map Sleep_Hours fd)),
       kpi_stress = py_round2 (mean (dropna (map Stress_Index fd))),
       kpi_bmi = py_round2 (mean (map BMI fd)) \<rparr>"

section \<open>Scatter of coffee intake against a health metric\<close>

text \<open>The four options of the select box, and \<^verbatim>\<open>row[health_metric]\<close>.\<close>

datatype health_metric = Sleep_Hours_metric | Stress_Index_metric | Heart_Rate_metric | BMI_metric

fun metric_value :: "health_metric \<Rightarrow> row \<Rightarrow> rat option" where
  "metric_value Sleep_Hours_metric r = Some (Sleep_Hours r)"
| "metric_value Stress_Index_metric r = Stress_Index r"
| "metric_value Heart_Rate_metric r = Some (Heart_Rate r)"
| "metric_value BMI_metric r = Some (BMI r)"

record point =
  point_value :: "rat \<times> rat option"
  point_name :: string
  symbolSize :: rat
  itemStyle_color :: string

definition scatter_point :: "health_metric \<Rightarrow> row \<Rightarrow> point" where
  "scatter_point m r =
     \<lparr> point_value = (Coffee_Intake r, metric_value m r),
       point_name = Country r @ '' / '' @ Occupation r,
       symbolSize = max 5 (of_int (Age r) / 5),
       itemStyle_color = (if Gender r = ''Male'' then ''#FF5722'' else ''#2196F3'') \<rparr>"

definition scatter_data :: "health_metric \<Rightarrow> frame \<Rightarrow> point list" where
  "scatter_data m fd = map (scatter_point m) fd"

section \<open>World map\<close>

definition country_avg :: "frame \<Rightarrow> (string \<times> rat option) list" where
  "country_avg fd = map (\<lambda>(c, g). (c, mean (map Coffee_Intake g))) (groupby Country fd)"

definition country_name_map :: "string \<rightharpoonup> string" where
  "country_name_map =
     map_of [(''USA'', ''United States''),
             (''UK'', ''United Kingdom''),
             (''South Korea'', ''Korea, Rep.'')]"

definition data_list :: "frame \<Rightarrow> (string \<times> rat option) list" where
  "data_list fd =
     map (\<lambda>(c, v). (dict_get country_name_map c c, py_round2 v)) (country_avg fd)"

definition min_val :: "frame \<Rightarrow> rat option" where
  "min_val fd = py_or (series_min (map snd (country_avg fd))) 0"

definition max_val :: "frame \<Rightarrow> rat option" where
  "max_val fd = py_or (series_max (map snd (country_avg fd))) 1"

section \<open>Occupations and habits\<close>

definition occupation_avg :: "frame \<Rightarrow> ((string \<times> string) \<times> rat option) list" where
  "occupation_avg fd =
     map (\<lambda>(k, g). (k, mean (map Coffee_Intake g))) (groupby (\<lambda>r. (Occupation r, Gender r)) fd)"

definition data_bar :: "frame \<Rightarrow> (string \<times> rat option) list" where
  "data_bar fd =
     map (\<lambda>((occ, gen), v). (occ @ '' ('' @ gen @ '')'', py_round2 v)) (occupation_avg fd)"

datatype habit = Smoking_habit | Alcohol_Consumption_habit | Physical_Activity_Hours_habit

definition Activity_Bins :: "row \<Rightarrow> string option" where
  "Activity_Bins r =
     cut [0, 2, 4, 6, 24] [''0-2h'', ''2-4h'', ''4-6h'', ''6h+''] (Physical_Activity_Hours r)"

text \<open>
  The grouping column \<^verbatim>\<open>x_var\<close> of the box plot. The four bin labels ascend as
  strings in the order of their categories.
\<close>

fun x_var :: "habit \<Rightarrow> row \<Rightarrow> string option" where
  "x_var Physical_Activity_Hours_habit r = Activity_Bins r"
| "x_var Smoking_habit r = Some (Smoking r)"
| "x_var Alcohol_Consumption_habit r = Some (Alcohol_Consumption r)"

text \<open>
  \<^verbatim>\<open>groupby([x_var, 'Gender'])\<close>: a row whose key is NaN belongs to no group.
  Each group is kept with its rows; \<open>habits\<close> lists the coffee intakes of each. Only
  the groups that hold a row are listed: a pandas version that also lists the unobserved
  combinations of a categorical key adds entries that hold no row.
\<close>

definition habit_groups :: "habit \<Rightarrow> frame \<Rightarrow> ((string \<times> string) \<times> row list) list" where
  "habit_groups h fd =
     groupby (\<lambda>r. (the (x_var h r), Gender r)) (filter (\<lambda>r. x_var h r \<noteq> None) fd)"

definition habits :: "habit \<Rightarrow> frame \<Rightarrow> ((string \<times> string) \<times> rat list) list" where
  "habits h fd = map (\<lambda>(k, g). (k, map Coffee_Intake g)) (habit_groups h fd)"

definition option_box :: "habit \<Rightarrow> frame \<Rightarrow> string list \<times> rat list list" where
  "option_box h fd =
     (map (\<lambda>((x, gen), vs). x @ '' ('' @ gen @ '')'') (habits h fd),
      map snd (habits h fd))"

section \<open>Age trend\<close>

definition age_trend :: "frame \<Rightarrow> (int \<times> rat option \<times> rat option) list" where
  "age_trend fd =
     map (\<lambda>(a, g). (a, mean (map Coffee_Intake g), mean (map Sleep_Hours g))) (groupby Age fd)"

record option_line =
  xAxis_data :: "int list"
  series_Coffee_Intake :: "rat option list"
  series_Sleep_Hours :: "rat option list"

definition option_line :: "frame \<Rightarrow> option_line" where
  "option_line fd =
     \<lparr> xAxis_data = map fst (age_trend fd),
       series_Coffee_Intake = map (\<lambda>(a, c, s). py_round2 c) (age_trend fd),
       series_Sleep_Hours = map (\<lambda>(a, c, s). py_round2 s) (age_trend fd) \<rparr>"

section \<open>The script\<close>

record charts =
  tab1 :: kpis
  tab2 :: "point list"
  tab3 :: "(string \<times> rat option) list \<times> rat option \<times> rat option"
  tab4 :: "(string \<times> rat option) list \<times> string list \<times> rat list list"
  tab5 :: option_line

text \<open>
  One run of the script on the parsed file and the values of the widgets. The warning
  followed by \<^verbatim>\<open>st.stop()\<close> ends the run with \<open>EmptyResult\<close>; no tab is
  computed then.
\<close>

definition script ::
  "frame \<Rightarrow> string list \<Rightarrow> string list \<Rightarrow> int \<times> int \<Rightarrow> health_metric \<Rightarrow> habit
     \<Rightarrow> error + charts" where
  "script csv countries genders age_range hm hb =
     (let data = load_data csv;
          fd = filtered_data data countries genders age_range
      in if fd = [] then Inl EmptyResult
         else Inr \<lparr> tab1 = kpi fd,
                    tab2 = scatter_data hm fd,
                    tab3 = (data_list fd, min_val fd, max_val fd),
                    tab4 = (data_bar fd, option_box hb fd),
                    tab5 = option_line fd \<rparr>)"

section \<open>Sample data\<close>

text \<open>
  The three records of the scenario (country, gender, age, cups of coffee), completed by
  activity hours and fixed values for the remaining columns; \<open>all_zero\<close> is a view of
  one person who drinks no coffee.
\<close>

definition person :: "string \<Rightarrow> string \<Rightarrow> int \<Rightarrow> rat \<Rightarrow> rat \<Rightarrow> row" where
  "person c g a cups act =
     \<lparr> Country = c, Gender = g, Age = a, Occupation = ''Office'', Coffee_Intake = cups,
       Sleep_Hours = 7, Stress_Level = ''Low'', Heart_Rate = 70, BMI = 22,
       Smoking = ''0'', Alcohol_Consumption = ''0'', Physical_Activity_Hours = act \<rparr>"

definition fixture :: frame where
  "fixture =
     [person ''US'' ''Male'' 25 3 (7 / 2),
      person ''US'' ''Female'' 45 5 6,
      person ''UK'' ''Male'' 70 1 0]"

definition all_zero :: frame where
  "all_zero = [person ''US'' ''Male'' 25 0 1]"


section \<open>Masks select by predicate\<close>

lemma mask_and_map: "mask_and (map P xs) (map Q xs) = map (\<lambda>x. P x \<and> Q x) xs"
  by (induction xs) (simp_all add: mask_and_def)

lemma select_rows_map: "select_rows xs (map P xs) = filter P xs"
  by (induction xs) (simp_all add: select_rows_def)

lemma isin_map: "isin (map f xs) vals = map (\<lambda>x. f x \<in> set vals) xs"
  by (simp add: isin_def)

lemma load_data_filter:
  "load_data df = filter (\<lambda>r. Gender r \<in> set [''Male'', ''Female'']) df"
  unfolding load_data_def isin_map select_rows_map ..

lemma filtered_data_filter:
  "filtered_data data countries genders age_range =
     filter (\<lambda>r. ((Country r \<in> set countries \<and> Gender r \<in> set genders)
                  \<and> fst age_range \<le> Age r) \<and> Age r \<le> snd age_range) data"
  unfolding filtered_data_def isin_map map_map comp_def mask_and_map select_rows_map ..

section \<open>Grouping, means and rounding\<close>


lemma groupby_eq:
  "groupby key df =
     map (\<lambda>k. (k, filter (\<lambda>r. key r = k) df)) (sorted_list_of_set (key ` set df))"
  by (simp add: groupby_def sorted_list_of_set_sort_remdups [symmetric])

lemma groupby_group_nonempty:
  assumes "k \<in> key ` set df"
  shows "filter (\<lambda>r. key r = k) df \<noteq> []"
  using assms by (auto simp: filter_empty_conv)

lemma indicator_sum_distinct:
  "distinct ks \<Longrightarrow> sum_list (map (\<lambda>k. if x = k then 1 else 0) ks) = (if x \<in> set ks then 1 else (0::nat))"
  by (induction ks) auto

lemma group_sizes_cover:
  "distinct ks \<Longrightarrow> key ` set df \<subseteq> set ks \<Longrightarrow>
     sum_list (map (\<lambda>k. length (filter (\<lambda>r. key r = k) df)) ks) = length df"
proof (induction df)
  case Nil
  then show ?case by simp
next
  case (Cons r rs)
  have split: "(\<lambda>k. length (filter (\<lambda>r. key r = k) (r # rs))) =
               (\<lambda>k. (if key r = k then 1 else 0) + length (filter (\<lambda>r. key r = k) rs))"
    by auto
  from Cons.prems have mem: "key r \<in> set ks" and sub: "key ` set rs \<subseteq> set ks" by auto
  show ?case
    unfolding split sum_list_addf
    using Cons.IH [OF Cons.prems(1) sub] indicator_sum_distinct [OF Cons.prems(1), of "key r"] mem
    by simp
qed

lemma groupby_sizes: "sum_list (map (\<lambda>(k, g). length g) (groupby key df)) = length df"
proof -
  have "sum_list (map (\<lambda>(k, g). length g) (groupby key df)) =
        sum_list (map (\<lambda>k. length (filter (\<lambda>r. key r = k) df)) (sorted_list_of_set (key ` set df)))"
    by (simp add: groupby_eq comp_def)
  also have "\<dots> = length df"
    by (rule group_sizes_cover) simp_all
  finally show ?thesis .
qed





lemma dropna_map_Some: "(\<And>x. x \<in> set xs \<Longrightarrow> f x = Some (g x)) \<Longrightarrow> dropna (map f xs) = map g xs"
  by (induction xs) simp_all


section \<open>Bounds of the colour scale\<close>

lemma country_avg_means:
  "map snd (country_avg fd) =
     map (\<lambda>c. Some (sum_list (map Coffee_Intake (filter (\<lambda>r. Country r = c) fd))
                     / of_nat (length (filter (\<lambda>r. Country r = c) fd))))
       (sorted_list_of_set (Country ` set fd))"
proof -
  have "mean (map Coffee_Intake (filter (\<lambda>r. Country r = c) fd)) =
        Some (sum_list (map Coffee_Intake (filter (\<lambda>r. Country r = c) fd))
                     / of_nat (length (filter (\<lambda>r. Country r = c) fd)))"
    if "c \<in> Country ` set fd" for c
    using groupby_group_nonempty [OF that] by (simp add: mean_def)
  then show ?thesis
    by (simp add: country_avg_def groupby_eq comp_def)
qed

lemma series_min_Some:
  "xs \<noteq> [] \<Longrightarrow> series_min (map (\<lambda>x. Some (g x)) xs) = Some (Min (g ` set xs))"
proof -
  assume ne: "xs \<noteq> []"
  have d: "dropna (map (\<lambda>x. Some (g x)) xs) = map g xs"
    by (rule dropna_map_Some) simp
  from ne obtain v vs where vs: "map g xs = v # vs" by (cases xs) auto
  have "series_min (map (\<lambda>x. Some (g x)) xs) = Some (fold min vs v)"
    by (simp add: series_min_def d vs)
  also have "fold min vs v = Min (set (v # vs))"
    by (rule Min.set_eq_fold [symmetric])
  also have "set (v # vs) = g ` set xs"
    unfolding vs [symmetric] by simp
  finally show ?thesis .
qed

lemma series_max_Some:
  "xs \<noteq> [] \<Longrightarrow> series_max (map (\<lambda>x. Some (g x)) xs) = Some (Max (g ` set xs))"
proof -
  assume ne: "xs \<noteq> []"
  have d: "dropna (map (\<lambda>x. Some (g x)) xs) = map g xs"
    by (rule dropna_map_Some) simp
  from ne obtain v vs where vs: "map g xs = v # vs" by (cases xs) auto
  have "series_max (map (\<lambda>x. Some (g x)) xs) = Some (fold max vs v)"
    by (simp add: series_max_def d vs)
  also have "fold max vs v = Max (set (v # vs))"
    by (rule Max.set_eq_fold [symmetric])
  also have "set (v # vs) = g ` set xs"
    unfolding vs [symmetric] by simp
  finally show ?thesis .
qed

lemma scale_bounds_of_view:
  assumes "fd \<noteq> []"
  defines "m \<equiv> \<lambda>c. sum_list (map Coffee_Intake (filter (\<lambda>r. Country r = c) fd))
                     / of_nat (length (filter (\<lambda>r. Country r = c) fd))"
  shows "min_val fd = Some (Min (m ` Country ` set fd))"
    and "max_val fd = Some (if Max (m ` Country ` set fd) = 0 then 1 else Max (m ` Country ` set fd))"
proof -
  from assms(1) have ne: "sorted_list_of_set (Country ` set fd) \<noteq> []"
    by (cases fd) auto
  have mn: "series_min (map snd (country_avg fd)) = Some (Min (m ` Country ` set fd))"
    unfolding country_avg_means using series_min_Some [OF ne, of m] by (simp add: m_def)
  have mx: "series_max (map snd (country_avg fd)) = Some (Max (m ` Country ` set fd))"
    unfolding country_avg_means using series_max_Some [OF ne, of m] by (simp add: m_def)
  show "min_val fd = Some (Min (m ` Country ` set fd))"
    by (simp add: min_val_def mn py_or_def)
  show "max_val fd = Some (if Max (m ` Country ` set fd) = 0 then 1 else Max (m ` Country ` set fd))"
    by (simp add: max_val_def mx py_or_def)
qed

section \<open>The two dictionaries\<close>

lemma Stress_Index_levels:
  "Stress_Index r =
     (if Stress_Level r = ''Low'' then Some 1
      else if Stress_Level r = ''Medium'' then Some 2
      else if Stress_Level r = ''High'' then Some 3
      else None)"
  by (simp add: Stress_Index_def stress_mapping_def)


section \<open>Binning of the activity hours\<close>

lemma Activity_Bins_intervals:
  "Activity_Bins r =
     (if Physical_Activity_Hours r \<le> 0 then None
      else if Physical_Activity_Hours r \<le> 2 then Some ''0-2h''
      else if Physical_Activity_Hours r \<le> 4 then Some ''2-4h''
      else if Physical_Activity_Hours r \<le> 6 then Some ''4-6h''
      else if Physical_Activity_Hours r \<le> 24 then Some ''6h+''
      else None)"
  by (simp add: Activity_Bins_def cut_def searchsorted_left_def Let_def)

lemma groupby_member:
  "(k, g) \<in> set (groupby key df) \<Longrightarrow> g = filter (\<lambda>r. key r = k) df \<and> k \<in> key ` set df"
  by (auto simp: groupby_def)

section \<open>Claims on loading and filtering\<close>

text \<open>
  C1. For every dataset and every criteria (selected countries, selected genders,
  inclusive age range), a record is in the filtered view if and only if it is a record
  of the dataset whose country is among the selected countries, whose gender is among
  the selected genders and whose age lies between the two bounds, both included. The
  view keeps the dataset's order and multiplicities: it is the dataset with the other
  records removed.
\<close>

theorem filtered_data_membership:
  "(r \<in> set (filtered_data data countries genders (lo, hi)) \<longleftrightarrow>
      r \<in> set data \<and> Country r \<in> set countries \<and> Gender r \<in> set genders
        \<and> lo \<le> Age r \<and> Age r \<le> hi)
   \<and> filtered_data data countries genders (lo, hi) =
       filter (\<lambda>r. Country r \<in> set countries \<and> Gender r \<in> set genders
                    \<and> lo \<le> Age r \<and> Age r \<le> hi) data"
proof -
  have eq: "filtered_data data countries genders (lo, hi) =
       filter (\<lambda>r. Country r \<in> set countries \<and> Gender r \<in> set genders
                    \<and> lo \<le> Age r \<and> Age r \<le> hi) data"
    by (simp add: filtered_data_filter conj_assoc)
  show ?thesis
    unfolding eq by auto
qed

theorem filtered_data_membership_witness:
  "map Age (filtered_data fixture [''US'', ''UK''] [''Male'', ''Female''] (20, 60)) = [25, 45]"
proof -
  have "filtered_data fixture [''US'', ''UK''] [''Male'', ''Female''] (20, 60) =
        filter (\<lambda>r. Country r \<in> set [''US'', ''UK''] \<and> Gender r \<in> set [''Male'', ''Female'']
                    \<and> 20 \<le> Age r \<and> Age r \<le> 60) fixture"
    using filtered_data_membership
      [of "person ''UK'' ''Male'' 70 1 0" fixture "[''US'', ''UK'']" "[''Male'', ''Female'']" 20 60]
    by (rule conjunct2)
  also have "map Age \<dots> = [25, 45]"
    by code_simp
  finally show ?thesis .
qed


text \<open>
  C9. The loader keeps exactly the rows whose gender is the string Male or the string
  Female, so every record of the loaded dataset, and of every view filtered from it,
  has one of these two genders.
\<close>

theorem load_data_gender:
  "set (load_data df) = {r \<in> set df. Gender r = ''Male'' \<or> Gender r = ''Female''}
   \<and> (\<forall>r \<in> set (load_data df). Gender r = ''Male'' \<or> Gender r = ''Female'')
   \<and> (\<forall>r \<in> set (filtered_data (load_data df) countries genders age_range).
         Gender r = ''Male'' \<or> Gender r = ''Female'')"
proof -
  have sub: "set (filtered_data (load_data df) countries genders age_range)
               \<subseteq> set (load_data df)"
    by (simp add: filtered_data_filter)
  have mem: "set (load_data df) = {r \<in> set df. Gender r = ''Male'' \<or> Gender r = ''Female''}"
    by (auto simp: load_data_filter)
  from sub mem show ?thesis by blast
qed

theorem load_data_gender_witness:
  "person ''US'' ''Other'' 30 2 1 \<notin> set (load_data (person ''US'' ''Other'' 30 2 1 # fixture))"
proof -
  have g: "Gender (person ''US'' ''Other'' 30 2 1) = ''Other''"
    by (simp add: person_def)
  have "set (load_data (person ''US'' ''Other'' 30 2 1 # fixture)) =
        {r \<in> set (person ''US'' ''Other'' 30 2 1 # fixture).
           Gender r = ''Male'' \<or> Gender r = ''Female''}"
    using load_data_gender [of "person ''US'' ''Other'' 30 2 1 # fixture" "[]" "[]" "(0, 0)"]
    by (rule conjunct1)
  then show ?thesis
    using g by simp
qed

section \<open>Claims on the box plot of habits\<close>



text \<open>
  C10. In the box plot by activity hours, a record gets no bin exactly when its hours lie
  outside the interval (0, 24]; a record with exactly 0 hours gets none. A record without
  a bin is in no group, and the groups together hold as many records as the view has
  records with hours in (0, 24]: they need not cover the view.
\<close>

theorem unbinned_rows_leave_groups:
  "(Activity_Bins r = None \<longleftrightarrow>
      \<not> (0 < Physical_Activity_Hours r \<and> Physical_Activity_Hours r \<le> 24))
   \<and> Activity_Bins (r\<lparr>Physical_Activity_Hours := 0\<rparr>) = None
   \<and> (Activity_Bins r = None \<longrightarrow>
        (\<forall>kg \<in> set (habit_groups Physical_Activity_Hours_habit fd). r \<notin> set (snd kg)))
   \<and> sum_list (map (\<lambda>(k, g). length g) (habit_groups Physical_Activity_Hours_habit fd)) =
       length (filter (\<lambda>r. 0 < Physical_Activity_Hours r \<and> Physical_Activity_Hours r \<le> 24) fd)"
proof -
  have none_iff: "Activity_Bins r = None \<longleftrightarrow>
      \<not> (0 < Physical_Activity_Hours r \<and> Physical_Activity_Hours r \<le> 24)" for r
    by (simp add: Activity_Bins_intervals)
  have zero: "Activity_Bins (r\<lparr>Physical_Activity_Hours := 0\<rparr>) = None"
    by (simp add: Activity_Bins_intervals)
  have excluded: "r \<notin> set (snd kg)"
    if "Activity_Bins r = None" and "kg \<in> set (habit_groups Physical_Activity_Hours_habit fd)" for kg
  proof
    assume "r \<in> set (snd kg)"
    moreover from that(2) have "snd kg =
        filter (\<lambda>r. (the (x_var Physical_Activity_Hours_habit r), Gender r) = fst kg)
          (filter (\<lambda>r. x_var Physical_Activity_Hours_habit r \<noteq> None) fd)"
      using groupby_member [of "fst kg" "snd kg"] by (simp add: habit_groups_def)
    ultimately have "x_var Physical_Activity_Hours_habit r \<noteq> None" by simp
    with that(1) show False by simp
  qed
  have keep: "filter (\<lambda>r. x_var Physical_Activity_Hours_habit r \<noteq> None) fd =
      filter (\<lambda>r. 0 < Physical_Activity_Hours r \<and> Physical_Activity_Hours r \<le> 24) fd"
    by (rule filter_cong) (use none_iff in auto)
  have sizes: "sum_list (map (\<lambda>(k, g). length g) (habit_groups Physical_Activity_Hours_habit fd)) =
       length (filter (\<lambda>r. 0 < Physical_Activity_Hours r \<and> Physical_Activity_Hours r \<le> 24) fd)"
    unfolding habit_groups_def groupby_sizes keep ..
  from none_iff zero excluded sizes show ?thesis by blast
qed

theorem unbinned_rows_leave_groups_witness:
  "Activity_Bins (person ''UK'' ''Male'' 70 1 0) = None
   \<and> length fixture = 3
   \<and> sum_list (map (\<lambda>(k, g). length g) (habit_groups Physical_Activity_Hours_habit fixture)) = 2"
proof -
  have a: "Activity_Bins (person ''UK'' ''Male'' 70 1 0) = None" by code_simp
  have b: "length fixture = 3" by (simp add: fixture_def)
  have "sum_list (map (\<lambda>(k, g). length g) (habit_groups Physical_Activity_Hours_habit fixture)) =
        length (filter (\<lambda>r. 0 < Physical_Activity_Hours r \<and> Physical_Activity_Hours r \<le> 24) fixture)"
    using unbinned_rows_leave_groups [of "person ''UK'' ''Male'' 70 1 0" fixture] by blast
  also have "\<dots> = 2" by code_simp
  finally show ?thesis using a b by simp
qed

section \<open>Claims on the empty guard\<close>



section \<open>Claims on the KPI overview\<close>



section \<open>Claims on the scatter plot\<close>

text \<open>
  C8. For every view and every health metric of the select box, the scatter data has one
  point per record, in the order of the records: its value is the pair of the record's
  coffee intake and of its metric value, its name joins country and occupation, its size
  is the larger of 5 and a fifth of the age, and its colour depends on the gender alone,
  one colour for Male and another for the rest, hence for Female. Nothing is aggregated.
\<close>

theorem scatter_one_point_per_record:
  "length (scatter_data hm fd) = length fd
   \<and> (\<forall>i < length fd.
        point_value (scatter_data hm fd ! i) = (Coffee_Intake (fd ! i), metric_value hm (fd ! i))
      \<and> point_name (scatter_data hm fd ! i) = Country (fd ! i) @ '' / '' @ Occupation (fd ! i)
      \<and> symbolSize (scatter_data hm fd ! i) = max 5 (of_int (Age (fd ! i)) / 5)
      \<and> itemStyle_color (scatter_data hm fd ! i) =
          (if Gender (fd ! i) = ''Male'' then ''#FF5722'' else ''#2196F3''))
   \<and> ''#FF5722'' \<noteq> ''#2196F3''
   \<and> metric_value Sleep_Hours_metric r = Some (Sleep_Hours r)
   \<and> metric_value Heart_Rate_metric r = Some (Heart_Rate r)
   \<and> metric_value BMI_metric r = Some (BMI r)
   \<and> metric_value Stress_Index_metric r =
       (if Stress_Level r = ''Low'' then Some 1
        else if Stress_Level r = ''Medium'' then Some 2
        else if Stress_Level r = ''High'' then Some 3
        else None)"
  by (simp add: scatter_data_def scatter_point_def Stress_Index_levels)

theorem scatter_one_point_per_record_witness:
  "length (scatter_data BMI_metric fixture) = 3
   \<and> point_value (scatter_data BMI_metric fixture ! 1) = (5, Some 22)
   \<and> point_name (scatter_data BMI_metric fixture ! 1) = ''US / Office''
   \<and> symbolSize (scatter_data BMI_metric fixture ! 1) = 9
   \<and> itemStyle_color (scatter_data BMI_metric fixture ! 1) = ''#2196F3''"
proof -
  have len: "length fixture = 3" by (simp add: fixture_def)
  have row: "fixture ! 1 = person ''US'' ''Female'' 45 5 6" by (simp add: fixture_def)
  have i: "(1::nat) < length fixture" unfolding len by simp
  from scatter_one_point_per_record [of BMI_metric fixture "fixture ! 1"] i
  have "length (scatter_data BMI_metric fixture) = length fixture
    \<and> point_value (scatter_data BMI_metric fixture ! 1) =
        (Coffee_Intake (fixture ! 1), metric_value BMI_metric (fixture ! 1))
    \<and> point_name (scatter_data BMI_metric fixture ! 1) =
        Country (fixture ! 1) @ '' / '' @ Occupation (fixture ! 1)
    \<and> symbolSize (scatter_data BMI_metric fixture ! 1) = max 5 (of_int (Age (fixture ! 1)) / 5)
    \<and> itemStyle_color (scatter_data BMI_metric fixture ! 1) =
        (if Gender (fixture ! 1) = ''Male'' then ''#FF5722'' else ''#2196F3'')"
    by blast
  then show ?thesis
    unfolding row len by (simp add: person_def)
qed

section \<open>Claims on the world map\<close>



text \<open>
  C6. On a view whose only record has a coffee intake of 0, the per-country means have
  minimum 0 and maximum 0; the lower bound of the colour scale is 0 and the upper bound
  is 1, not the observed maximum: \<^verbatim>\<open>max() or 1\<close> replaces the falsy 0.0, as the
  run of the script on that record shows. On a frame without any country the minimum and
  the maximum are NaN, which is truthy, so neither default applies and both bounds are
  NaN. For every other view \<open>scale_bounds_of_view\<close> gives the two bounds.
\<close>

theorem color_scale_bounds_at_zero:
  "series_min (map snd (country_avg all_zero)) = Some 0
   \<and> series_max (map snd (country_avg all_zero)) = Some 0
   \<and> min_val all_zero = Some 0
   \<and> max_val all_zero = Some 1
   \<and> (case script all_zero [''US''] [''Male''] (20, 60) BMI_metric Smoking_habit of
         Inl e \<Rightarrow> None
       | Inr c \<Rightarrow> Some (snd (tab3 c))) = Some (Some 0, Some 1)
   \<and> country_avg [] = []
   \<and> min_val [] = None
   \<and> max_val [] = None"
  by code_simp

section \<open>Claims on the age trend\<close>



end
